theory Spec2Isabelle
  imports Main "HOL-Library.Word"
begin

section \<open>The temperature LED driver (temp\_led\_plus\_module.c)\<close>

text \<open>
  A shallow embedding of the kernel module \<^verbatim>\<open>03_Driver_Lesson/temp_led_plus_module.c\<close>.
  The module keeps its whole state in file-scope variables; here they are the fields of
  one record, and every entry point of the module is a function from that record to the
  updated record. The kernel services the module calls (the sensor, the GPIO lines, the
  timers, the user-space copies, the log) are not part of the repository: their outcome
  at a call is an argument of the entry point that makes the call, and their effect on
  the machine is a field of the record.
\<close>

subsection \<open>Types\<close>

text \<open>
  A byte of a buffer (\<^verbatim>\<open>unsigned char\<close>, \<^verbatim>\<open>char\<close>) is a \<^typ>\<open>char\<close>, which in HOL is
  exactly eight bits. The tick counter \<^verbatim>\<open>jiffies\<close> is an \<^verbatim>\<open>unsigned long\<close> of the 32-bit
  target the file names (Linux raspberrypi 5.10.103+), and its addition wraps.
  The \<^verbatim>\<open>int\<close> variables that are only compared or divided by 1000 are \<^typ>\<open>int\<close>; the
  one place where a \<^verbatim>\<open>size_t\<close> is stored in an \<^verbatim>\<open>int\<close> has the conversion written out.
\<close>

type_synonym byte = char
type_synonym jiffies = "32 word"

datatype errno = EFAULT | EBUSY | ENOMEM | EINVAL | ENODEV

text \<open>The numeric value of an error code, as \<^verbatim>\<open>errno-base.h\<close> gives it.\<close>

fun errno_val :: "errno \<Rightarrow> int" where
  "errno_val EFAULT = 14"
| "errno_val EBUSY = 16"
| "errno_val ENOMEM = 12"
| "errno_val EINVAL = 22"
| "errno_val ENODEV = 19"

subsection \<open>Constants of the file\<close>

definition BUFFER_SIZE :: nat where
  "BUFFER_SIZE = 1024"

definition PROC_BUFFER_SIZE :: nat where
  "PROC_BUFFER_SIZE = 1024"

definition GPIO_5 :: nat where
  "GPIO_5 = 5"

definition GPIO_6 :: nat where
  "GPIO_6 = 6"

definition GPIO_26 :: nat where
  "GPIO_26 = 26"

definition TIMEOUT :: nat where
  "TIMEOUT = 5000"

datatype gpio_flags = GPIOF_OUT_INIT_HIGH

text \<open>\<^verbatim>\<open>struct gpio led_array[]\<close>: line number, flags and label of the three LEDs.\<close>

definition led_array :: "(nat \<times> gpio_flags \<times> string) list" where
  "led_array =
     [(GPIO_5, GPIOF_OUT_INIT_HIGH, ''LED_5''),
      (GPIO_6, GPIOF_OUT_INIT_HIGH, ''LED_6''),
      (GPIO_26, GPIOF_OUT_INIT_HIGH, ''LED_26'')]"

subsection \<open>The state\<close>

text \<open>
  The first eleven fields are the module's static variables, under their own names.
  The remaining four are the part of the machine the module acts on: the level of
  every GPIO line, the expiry of each of the two timers while it is pending, and the
  lines the module has written to the kernel log at error level (\<^verbatim>\<open>pr_err\<close>). The
  informational lines (\<^verbatim>\<open>pr_info\<close>) are left out of the model: they change nothing
  but the log.
\<close>

record driver =
  is_open :: int
  data_size :: int
  data_buffer :: "byte list"
  procfs_buffer :: "byte list"
  procfs_buffer_size :: nat
  temp :: int
  to_temp_green :: int
  to_temp_yellow :: int
  to_temp_red :: int
  gpio_index :: int
  flag_timer :: bool
  gpio_level :: "nat \<Rightarrow> bool"
  timer_blink :: "jiffies option"
  timer_thermal :: "jiffies option"
  klog :: "string list"

text \<open>
  The state of a freshly loaded module: the C initialisers of the static variables
  (zero where the file gives none), no line driven, no timer pending, an empty log.
\<close>

definition driver_loaded :: driver where
  "driver_loaded =
     \<lparr> is_open = 0, data_size = 0,
       data_buffer = replicate BUFFER_SIZE (CHR 0x00),
       procfs_buffer = replicate PROC_BUFFER_SIZE (CHR 0x00),
       procfs_buffer_size = 0,
       temp = 0,
       to_temp_green = 40000, to_temp_yellow = 60000, to_temp_red = 75000,
       gpio_index = 0, flag_timer = False,
       gpio_level = (\<lambda>_. False),
       timer_blink = None, timer_thermal = None,
       klog = [] \<rparr>"

subsection \<open>Kernel services\<close>

text \<open>\<^verbatim>\<open>gpio_set_value(gpio, value)\<close> drives the line high when \<open>value\<close> is not zero.\<close>

definition gpio_set_value :: "nat \<Rightarrow> int \<Rightarrow> driver \<Rightarrow> driver" where
  "gpio_set_value g v st = st\<lparr>gpio_level := (gpio_level st)(g := (v \<noteq> 0))\<rparr>"

text \<open>\<^verbatim>\<open>pr_err\<close> appends one line to the kernel log.\<close>

definition pr_err :: "string \<Rightarrow> driver \<Rightarrow> driver" where
  "pr_err msg st = st\<lparr>klog := klog st @ [msg]\<rparr>"

text \<open>
  \<^verbatim>\<open>thermal_zone_get_temp(tz, &temp)\<close>: the outcome of the sensor query is an argument,
  \<open>Inr t\<close> for a reading of \<open>t\<close> milli-degrees (the call stores it in \<open>temp\<close> and
  returns 0) and \<open>Inl e\<close> for a failed query (the call returns \<open>-e\<close> and stores
  nothing). The result is the new state and the call's return value.
\<close>

definition thermal_zone_get_temp :: "errno + int \<Rightarrow> driver \<Rightarrow> driver \<times> int" where
  "thermal_zone_get_temp reading st =
     (case reading of
        Inr t \<Rightarrow> (st\<lparr>temp := t\<rparr>, 0)
      | Inl e \<Rightarrow> (st, - errno_val e))"

subsection \<open>The two timer callbacks\<close>

text \<open>
  Both callbacks take the value of \<^verbatim>\<open>jiffies\<close> at the firing (\<open>now\<close>) and the kernel's
  \<^verbatim>\<open>msecs_to_jiffies\<close> (\<open>m2j\<close>, which depends on the kernel's tick rate).
  \<^verbatim>\<open>mod_timer(&t, e)\<close> makes the timer pending with expiry \<open>e\<close>.

  \<^verbatim>\<open>timer_blink_callback\<close> reads \<^verbatim>\<open>led_array[gpio_index]\<close>. An index outside the array
  is an out-of-bounds read in C; the model returns \<open>None\<close> there.
\<close>

definition timer_blink_callback ::
    "jiffies \<Rightarrow> (nat \<Rightarrow> jiffies) \<Rightarrow> driver \<Rightarrow> driver option" where
  "timer_blink_callback now m2j st =
     (if gpio_index st < 0 \<or> int (length led_array) \<le> gpio_index st then None
      else
        let pin = fst (led_array ! nat (gpio_index st));
            st1 =
              (if flag_timer st = False
               then (gpio_set_value pin 0 st)\<lparr>timer_blink := Some (now + m2j 10)\<rparr>
               else (gpio_set_value pin 1 st)\<lparr>timer_blink := Some (now + m2j 1)\<rparr>)
        in Some (st1\<lparr>flag_timer := \<not> flag_timer st1\<rparr>))"

text \<open>
  \<^verbatim>\<open>thermal_callback\<close>: the sensor query (a failure is logged, and nothing else is done
  about it), the chain of three comparisons, and the re-arming of the timer. The format
  \<^verbatim>\<open>%s\<close> of the log line is filled with \<^verbatim>\<open>__func__\<close>.
\<close>

definition thermal_callback ::
    "jiffies \<Rightarrow> (nat \<Rightarrow> jiffies) \<Rightarrow> errno + int \<Rightarrow> driver \<Rightarrow> driver" where
  "thermal_callback now m2j reading st =
     (let (st1, rc) = thermal_zone_get_temp reading st;
          st2 = (if rc \<noteq> 0
                 then pr_err ''thermal_callback Failed to get temperature\<newline>'' st1
                 else st1);
          st3 =
            (if temp st2 < to_temp_green st2 then
               gpio_set_value GPIO_26 1 (gpio_set_value GPIO_6 0 (gpio_set_value GPIO_5 0
                 (st2\<lparr>gpio_index := 2\<rparr>)))
             else if temp st2 < to_temp_yellow st2 then
               gpio_set_value GPIO_26 0 (gpio_set_value GPIO_6 1 (gpio_set_value GPIO_5 0
                 (st2\<lparr>gpio_index := 1\<rparr>)))
             else if temp st2 < to_temp_red st2 then
               gpio_set_value GPIO_26 0 (gpio_set_value GPIO_6 0 (gpio_set_value GPIO_5 1
                 (st2\<lparr>gpio_index := 0\<rparr>)))
             else
               gpio_set_value GPIO_26 1 (gpio_set_value GPIO_6 1 (gpio_set_value GPIO_5 1
                 (st2\<lparr>gpio_index := 0\<rparr>))))
      in st3\<lparr>timer_thermal := Some (now + m2j TIMEOUT)\<rparr>)"

subsection \<open>Integer conversions and formatting\<close>

text \<open>
  On the target \<^verbatim>\<open>int\<close> and \<^verbatim>\<open>size_t\<close> are both 32 bits wide. Storing a \<^verbatim>\<open>size_t\<close> in
  an \<^verbatim>\<open>int\<close> keeps the low 32 bits and reads them as two's complement; comparing an
  \<^verbatim>\<open>int\<close> with a \<^verbatim>\<open>size_t\<close>, or passing it where an unsigned length is expected, reads
  its 32 bits as unsigned.
\<close>

definition int_of_size_t :: "nat \<Rightarrow> int" where
  "int_of_size_t n =
     (let m = int n mod 2 ^ 32 in if m < 2 ^ 31 then m else m - 2 ^ 32)"

definition size_t_of_int :: "int \<Rightarrow> nat" where
  "size_t_of_int i = nat (i mod 2 ^ 32)"

text \<open>C's \<^verbatim>\<open>/\<close> and \<^verbatim>\<open>%\<close> on \<^verbatim>\<open>int\<close>: the quotient is truncated towards zero.\<close>

definition c_div :: "int \<Rightarrow> int \<Rightarrow> int" where
  "c_div a b = sgn a * sgn b * (\<bar>a\<bar> div \<bar>b\<bar>)"

definition c_mod :: "int \<Rightarrow> int \<Rightarrow> int" where
  "c_mod a b = a - b * c_div a b"

text \<open>The conversion \<^verbatim>\<open>%d\<close> of the kernel's \<^verbatim>\<open>sprintf\<close>: decimal digits, a minus sign first
  for a negative number.\<close>

definition digit_char :: "nat \<Rightarrow> char" where
  "digit_char d = ''0123456789'' ! d"

fun show_nat :: "nat \<Rightarrow> string" where
  "show_nat n = (if n < 10 then [digit_char n] else show_nat (n div 10) @ [digit_char (n mod 10)])"

declare show_nat.simps [simp del]

definition show_int :: "int \<Rightarrow> string" where
  "show_int i = (if i < 0 then CHR ''-'' # show_nat (nat (- i)) else show_nat (nat i))"

text \<open>
  \<^verbatim>\<open>sprintf(buf, ...)\<close> stores the formatted text and a terminating NUL at the start of
  the buffer and leaves the bytes behind them as they were.
\<close>

definition sprintf :: "byte list \<Rightarrow> string \<Rightarrow> byte list" where
  "sprintf buf s = s @ [CHR 0x00] @ drop (length s + 1) buf"

subsection \<open>Copies from and to user space\<close>

text \<open>
  A user-space pointer the module reads from is modelled by the bytes that are readable
  at it, a pointer it writes to by the number of bytes that are writable at it; an
  access past them faults. Both copy routines return the number of bytes they could
  not copy, zero on success. \<^verbatim>\<open>copy_from_user\<close> fills the part of the kernel buffer it
  could not copy with zero bytes. The first component of the result is what arrives:
  the \<open>n\<close> bytes stored in the kernel buffer, or the bytes stored in user space.
\<close>

definition copy_from_user :: "byte list \<Rightarrow> nat \<Rightarrow> byte list \<times> nat" where
  "copy_from_user src n =
     (take n src @ replicate (n - length src) (CHR 0x00), n - length src)"

definition copy_to_user :: "nat \<Rightarrow> byte list \<Rightarrow> nat \<Rightarrow> byte list \<times> nat" where
  "copy_to_user writable src n = (take (min n writable) src, n - writable)"

subsection \<open>The loopback character device\<close>

definition dev_open :: "driver \<Rightarrow> driver \<times> int" where
  "dev_open st =
     (if is_open st \<noteq> 0 then (pr_err ''chrdev: already open\<newline>'' st, - errno_val EBUSY)
      else (st\<lparr>is_open := 1\<rparr>, 0))"

definition dev_release :: "driver \<Rightarrow> driver \<times> int" where
  "dev_release st = (st\<lparr>is_open := 0\<rparr>, 0)"

text \<open>
  \<^verbatim>\<open>dev_read(filep, buffer, len, offset)\<close>: \<open>writable\<close> stands for \<^verbatim>\<open>buffer\<close>. The result is
  the new state, the bytes stored in the caller's buffer and the return value. A copy of
  more than \<^verbatim>\<open>BUFFER_SIZE\<close> bytes would read past the end of \<^verbatim>\<open>data_buffer\<close>; the model
  returns \<open>None\<close> there.
\<close>

definition dev_read :: "nat \<Rightarrow> nat \<Rightarrow> driver \<Rightarrow> (driver \<times> byte list \<times> int) option" where
  "dev_read writable len st =
     (let len1 = (if len > size_t_of_int (data_size st) then size_t_of_int (data_size st)
                  else len)
      in if len1 > BUFFER_SIZE then None
         else
           let (delivered, ret) = copy_to_user writable (data_buffer st) len1
           in if ret \<noteq> 0
              then Some (pr_err (''chrdev: copy_to_user failed: '' @ show_int (int ret) @ ''\<newline>'') st,
                         delivered, - errno_val EFAULT)
              else Some (st\<lparr>data_size := 0\<rparr>, delivered, int len1))"

text \<open>
  \<^verbatim>\<open>dev_write(filep, buffer, len, offset)\<close>: \<open>buffer\<close> is the bytes readable at the
  caller's pointer. The result is the new state and the return value. The length is
  stored in the \<^verbatim>\<open>int\<close> variable \<^verbatim>\<open>data_size\<close> before it is compared with the capacity, and
  handed to \<^verbatim>\<open>copy_from_user\<close> as an unsigned length; a copy of more than
  \<^verbatim>\<open>BUFFER_SIZE\<close> bytes would write past the end of \<^verbatim>\<open>data_buffer\<close>, and the model returns
  \<open>None\<close> there.
\<close>

definition dev_write :: "byte list \<Rightarrow> nat \<Rightarrow> driver \<Rightarrow> (driver \<times> int) option" where
  "dev_write buffer len st =
     (let st1 = st\<lparr>data_size := int_of_size_t len\<rparr>;
          st2 = (if data_size st1 > int BUFFER_SIZE then st1\<lparr>data_size := int BUFFER_SIZE\<rparr>
                 else st1);
          n = size_t_of_int (data_size st2)
      in if n > BUFFER_SIZE then None
         else
           let (stored, ret) = copy_from_user buffer n;
               st3 = st2\<lparr>data_buffer := stored @ drop n (data_buffer st2)\<rparr>
           in if ret \<noteq> 0
              then Some (pr_err (''chrdev: copy_from_user failed: '' @ show_int (int ret) @ ''\<newline>'') st3,
                         - errno_val EFAULT)
              else Some (st3, data_size st3))"

subsection \<open>The status file in procfs\<close>

text \<open>The text \<^verbatim>\<open>hello_read\<close> formats from the stored temperature.\<close>

definition temperature_text :: "int \<Rightarrow> string" where
  "temperature_text t =
     ''CPU temperature = '' @ show_int (c_div t 1000) @ ''.'' @ show_int (c_mod t 1000)
       @ '' Grad\<newline>''"

text \<open>
  \<^verbatim>\<open>hello_read(file, buf, count, pos)\<close>: \<open>reading\<close> is the outcome of the sensor query,
  \<open>writable\<close> stands for \<^verbatim>\<open>buf\<close>, and \<open>pos\<close> is the value of \<^verbatim>\<open>*pos\<close>, a signed 64-bit
  file offset. The result is the new state, the bytes stored in the caller's buffer,
  the return value and the new \<^verbatim>\<open>*pos\<close>. With a negative offset
  \<^verbatim>\<open>procfs_buffer + *pos\<close> points before the buffer; the model returns \<open>None\<close> there.
\<close>

definition hello_read ::
    "errno + int \<Rightarrow> nat \<Rightarrow> nat \<Rightarrow> int \<Rightarrow> driver \<Rightarrow> (driver \<times> byte list \<times> int \<times> int) option" where
  "hello_read reading writable count pos st =
     (let (st1, rc) = thermal_zone_get_temp reading st;
          st2 = (if rc \<noteq> 0 then pr_err ''Failed to get temperature\<newline>'' st1 else st1);
          st3 = st2\<lparr>procfs_buffer_size := min count PROC_BUFFER_SIZE\<rparr>
      in if pos \<ge> int (procfs_buffer_size st3) then Some (st3, [], 0, pos)
         else if pos < 0 then None
         else
           let st4 = st3\<lparr>procfs_buffer := sprintf (procfs_buffer st3) (temperature_text (temp st3))\<rparr>;
               st5 = (if pos + int (procfs_buffer_size st4) > int PROC_BUFFER_SIZE
                      then st4\<lparr>procfs_buffer_size := nat (int PROC_BUFFER_SIZE - pos)\<rparr>
                      else st4);
               (delivered, ret) =
                 copy_to_user writable (drop (nat pos) (procfs_buffer st5)) (procfs_buffer_size st5)
           in if ret \<noteq> 0 then Some (st5, delivered, - errno_val EFAULT, pos)
              else Some (st5, delivered, int (procfs_buffer_size st5),
                         pos + int (procfs_buffer_size st5)))"

subsection \<open>The threshold attributes in sysfs\<close>

text \<open>
  A store runs \<^verbatim>\<open>sscanf(buf, "%d", &to_temp_...)\<close>: \<open>parsed\<close> is the number the
  conversion reads, \<open>None\<close> when the text does not start with a number, in which case
  the variable keeps its value. The store returns \<open>count\<close> either way.
\<close>

definition sysfs_green_show :: "driver \<Rightarrow> string" where
  "sysfs_green_show st = show_int (to_temp_green st) @ ''\<newline>''"

definition sysfs_green_store :: "int option \<Rightarrow> nat \<Rightarrow> driver \<Rightarrow> driver \<times> nat" where
  "sysfs_green_store parsed count st =
     ((case parsed of Some v \<Rightarrow> st\<lparr>to_temp_green := v\<rparr> | None \<Rightarrow> st), count)"

definition sysfs_yellow_show :: "driver \<Rightarrow> string" where
  "sysfs_yellow_show st = show_int (to_temp_yellow st) @ ''\<newline>''"

definition sysfs_yellow_store :: "int option \<Rightarrow> nat \<Rightarrow> driver \<Rightarrow> driver \<times> nat" where
  "sysfs_yellow_store parsed count st =
     ((case parsed of Some v \<Rightarrow> st\<lparr>to_temp_yellow := v\<rparr> | None \<Rightarrow> st), count)"

definition sysfs_red_show :: "driver \<Rightarrow> string" where
  "sysfs_red_show st = show_int (to_temp_red st) @ ''\<newline>''"

definition sysfs_red_store :: "int option \<Rightarrow> nat \<Rightarrow> driver \<Rightarrow> driver \<times> nat" where
  "sysfs_red_store parsed count st =
     ((case parsed of Some v \<Rightarrow> st\<lparr>to_temp_red := v\<rparr> | None \<Rightarrow> st), count)"

subsection \<open>Loading and unloading the module\<close>

text \<open>
  What \<^verbatim>\<open>temp_led_init\<close> acquires from the kernel, and the calls by which the module
  gives things back. \<^verbatim>\<open>sysfs_remove_file\<close> names the directory it removes the file from.
\<close>

datatype attr = To_temp_green | To_temp_yellow | To_temp_red

datatype kobj = Kernel_kobj | Chrdev_kobj

datatype timer = Timer_blink | Timer_thermal

datatype resource =
    Chrdev_region | Cdev | Device_class | Device_node | Kobject | Sysfs_file attr
  | Proc_folder | Proc_file | Gpio_lines

datatype cleanup =
    Kobject_put | Sysfs_remove_file kobj attr | Unregister_chrdev_region | Class_destroy
  | Cdev_del | Device_destroy | Proc_remove resource | Del_timer timer | Gpio_free_array

text \<open>
  What \<^verbatim>\<open>thermal_zone_get_zone_by_name\<close> hands back: a zone, a null pointer, or an error
  encoded as a pointer (\<^verbatim>\<open>ERR_PTR\<close>). The module tests the pointer with \<^verbatim>\<open>!tz\<close> only.
\<close>

datatype tz_pointer = Tz_zone | Tz_null | Tz_err_ptr errno

text \<open>
  The outcome of every kernel call of \<^verbatim>\<open>temp_led_init\<close> that can fail, in the order of
  the calls. \<^verbatim>\<open>kobject_create_and_add\<close> is absent: the module does not look at its result.
\<close>

record init_env =
  alloc_chrdev_region_ret :: int
  cdev_add_ret :: int
  class_create_ok :: bool
  device_create_ok :: bool
  sysfs_create_green_ret :: int
  sysfs_create_yellow_ret :: int
  sysfs_create_red_ret :: int
  proc_mkdir_ok :: bool
  proc_create_ok :: bool
  gpio_request_array_ret :: int
  zone_by_name :: tz_pointer
  first_reading :: "errno + int"

text \<open>The labels at the end of \<^verbatim>\<open>temp_led_init\<close>; each falls through to the next.\<close>

definition cdev_err :: "cleanup list" where
  "cdev_err = [Cdev_del]"

definition class_err :: "cleanup list" where
  "class_err = Class_destroy # cdev_err"

definition device_err :: "cleanup list" where
  "device_err = Unregister_chrdev_region # class_err"

definition sysfs_err :: "cleanup list" where
  "sysfs_err =
     [Kobject_put, Sysfs_remove_file Kernel_kobj To_temp_green,
      Sysfs_remove_file Kernel_kobj To_temp_yellow, Sysfs_remove_file Kernel_kobj To_temp_red]
     @ device_err"

text \<open>\<^verbatim>\<open>gpio_request_array\<close> on success: every line of the array is an output driven as
  its flags say.\<close>

definition gpio_request_array :: "(nat \<times> gpio_flags \<times> string) list \<Rightarrow> driver \<Rightarrow> driver" where
  "gpio_request_array arr st =
     foldl (\<lambda>s (g, f, l). case f of GPIOF_OUT_INIT_HIGH \<Rightarrow> gpio_set_value g 1 s) st arr"

text \<open>
  \<^verbatim>\<open>temp_led_init\<close>. The result is the new state, the return value, the resources
  acquired up to the return (in the order of acquisition) and the clean-up calls made
  before the return (in the order of the calls). A sensor query on a pointer that is not
  a zone fails with \<^verbatim>\<open>EINVAL\<close>.
\<close>

definition temp_led_init ::
    "init_env \<Rightarrow> jiffies \<Rightarrow> (nat \<Rightarrow> jiffies) \<Rightarrow> driver
      \<Rightarrow> driver \<times> int \<times> resource list \<times> cleanup list" where
  "temp_led_init env now m2j st =
     (let st0 = st\<lparr>is_open := 0, data_size := 0\<rparr>;
          major = alloc_chrdev_region_ret env
      in
      if major < 0 then
        (pr_err (''chrdev: register_chrdev failed '' @ show_int major @ ''\<newline>'') st0, major, [], [])
      else if cdev_add_ret env < 0 then
        (pr_err ''chrdev: cannot add the device to the system\<newline>'' st0, 0,
         [Chrdev_region], cdev_err)
      else if \<not> class_create_ok env then
        (st0, 0, [Chrdev_region, Cdev], class_err)
      else if \<not> device_create_ok env then
        (st0, 0, [Chrdev_region, Cdev, Device_class], device_err)
      else if sysfs_create_green_ret env \<noteq> 0 then
        (pr_err ''chrdev: cannot create sysfs file to_temp_green_attr\<newline>'' st0, 0,
         [Chrdev_region, Cdev, Device_class, Device_node, Kobject], sysfs_err)
      else if sysfs_create_yellow_ret env \<noteq> 0 then
        (pr_err ''chrdev: cannot create sysfs file to_temp_yellow_attr\<newline>'' st0, 0,
         [Chrdev_region, Cdev, Device_class, Device_node, Kobject, Sysfs_file To_temp_green],
         sysfs_err)
      else if sysfs_create_red_ret env \<noteq> 0 then
        (pr_err ''chrdev: cannot create sysfs file to_temp_red_attr\<newline>'' st0, 0,
         [Chrdev_region, Cdev, Device_class, Device_node, Kobject, Sysfs_file To_temp_green,
          Sysfs_file To_temp_yellow],
         sysfs_err)
      else if \<not> proc_mkdir_ok env then
        (pr_err ''Failed to create /proc/chrdev_proc\<newline>'' st0, - errno_val ENOMEM,
         [Chrdev_region, Cdev, Device_class, Device_node, Kobject, Sysfs_file To_temp_green,
          Sysfs_file To_temp_yellow, Sysfs_file To_temp_red],
         [])
      else if \<not> proc_create_ok env then
        (pr_err ''Failed to create /proc/chrdev_proc/chrdev_temp_blink_proc\<newline>'' st0,
         - errno_val ENOMEM,
         [Chrdev_region, Cdev, Device_class, Device_node, Kobject, Sysfs_file To_temp_green,
          Sysfs_file To_temp_yellow, Sysfs_file To_temp_red, Proc_folder],
         [Proc_remove Proc_folder])
      else if gpio_request_array_ret env \<noteq> 0 then
        (pr_err ''Failed to request GPIO array\<newline>'' st0, - 1,
         [Chrdev_region, Cdev, Device_class, Device_node, Kobject, Sysfs_file To_temp_green,
          Sysfs_file To_temp_yellow, Sysfs_file To_temp_red, Proc_folder, Proc_file],
         [])
      else
        let st1 = gpio_request_array led_array st0 in
        if zone_by_name env = Tz_null then
          (pr_err ''thermal_zone_get_zone_by_name error\<newline>'' st1, - errno_val EINVAL,
           [Chrdev_region, Cdev, Device_class, Device_node, Kobject, Sysfs_file To_temp_green,
            Sysfs_file To_temp_yellow, Sysfs_file To_temp_red, Proc_folder, Proc_file,
            Gpio_lines],
           [])
        else
          let reading = (case zone_by_name env of Tz_zone \<Rightarrow> first_reading env
                         | _ \<Rightarrow> Inl EINVAL);
              (st2, rc) = thermal_zone_get_temp reading st1;
              st3 = (if rc \<noteq> 0 then pr_err ''Failed to get temperature\<newline>'' st2 else st2);
              st4 = st3\<lparr>timer_blink := Some (now + m2j TIMEOUT)\<rparr>;
              st5 = st4\<lparr>timer_thermal := Some (now + m2j TIMEOUT)\<rparr>
          in (st5, 0,
              [Chrdev_region, Cdev, Device_class, Device_node, Kobject,
               Sysfs_file To_temp_green, Sysfs_file To_temp_yellow, Sysfs_file To_temp_red,
               Proc_folder, Proc_file, Gpio_lines],
              []))"

text \<open>\<^verbatim>\<open>temp_led_exit\<close>: the clean-up calls in the order the function makes them;
  \<^verbatim>\<open>del_timer\<close> makes a pending timer inactive.\<close>

definition temp_led_exit :: "driver \<Rightarrow> driver \<times> cleanup list" where
  "temp_led_exit st =
     (st\<lparr>timer_blink := None, timer_thermal := None\<rparr>,
      [Kobject_put, Sysfs_remove_file Kernel_kobj To_temp_green,
       Sysfs_remove_file Kernel_kobj To_temp_yellow, Sysfs_remove_file Kernel_kobj To_temp_red,
       Device_destroy, Class_destroy, Cdev_del, Unregister_chrdev_region,
       Del_timer Timer_blink, Del_timer Timer_thermal, Gpio_free_array,
       Proc_remove Proc_file, Proc_remove Proc_folder])"

text \<open>
  What a clean-up call gives back. Dropping the last reference of the module's kobject
  removes its directory together with the attribute files in it; removing an attribute
  file from the directory of \<^verbatim>\<open>kernel_kobj\<close>, where the module never created one, gives
  nothing back.
\<close>

fun released_by :: "cleanup \<Rightarrow> resource list" where
  "released_by Kobject_put =
     [Kobject, Sysfs_file To_temp_green, Sysfs_file To_temp_yellow, Sysfs_file To_temp_red]"
| "released_by (Sysfs_remove_file Chrdev_kobj a) = [Sysfs_file a]"
| "released_by (Sysfs_remove_file Kernel_kobj a) = []"
| "released_by Unregister_chrdev_region = [Chrdev_region]"
| "released_by Class_destroy = [Device_class]"
| "released_by Cdev_del = [Cdev]"
| "released_by Device_destroy = [Device_node]"
| "released_by (Proc_remove r) = [r]"
| "released_by (Del_timer t) = []"
| "released_by Gpio_free_array = [Gpio_lines]"

text \<open>The resources of \<open>acquired\<close> that the calls of \<open>cleanups\<close> have not given back.\<close>

definition still_held :: "resource list \<Rightarrow> cleanup list \<Rightarrow> resource list" where
  "still_held acquired cleanups =
     filter (\<lambda>r. r \<notin> set (concat (map released_by cleanups))) acquired"

subsection \<open>The classification as the specification words it\<close>

text \<open>
  The specification describes the sample step through a band and an output pattern,
  neither of which is a value of the C file. These three definitions follow the
  specification's words (its sections 3 and 4.3), to be compared with
  \<^verbatim>\<open>thermal_callback\<close> above.
\<close>

datatype band = LOW | MID | HIGH | CRITICAL

datatype mode = Off | On | Blinking

record output_pattern =
  red :: mode
  yellow :: mode
  green :: mode

definition spec_band :: "int \<Rightarrow> int \<Rightarrow> int \<Rightarrow> int \<Rightarrow> band" where
  "spec_band t green_ceiling yellow_ceiling red_ceiling =
     (if t < green_ceiling then LOW
      else if t < yellow_ceiling then MID
      else if t < red_ceiling then HIGH
      else CRITICAL)"

fun spec_pattern :: "band \<Rightarrow> output_pattern" where
  "spec_pattern LOW = \<lparr>red = Off, yellow = Off, green = Blinking\<rparr>"
| "spec_pattern MID = \<lparr>red = Off, yellow = Blinking, green = Off\<rparr>"
| "spec_pattern HIGH = \<lparr>red = Blinking, yellow = Off, green = Off\<rparr>"
| "spec_pattern CRITICAL = \<lparr>red = Blinking, yellow = On, green = On\<rparr>"

text \<open>
  The pattern a state of the C file shows: the line at position \<^verbatim>\<open>gpio_index\<close> of
  \<^verbatim>\<open>led_array\<close> is the one the blink callback toggles; any other line is on or off as
  its level says. Position 0 of the array is the red LED, 1 the yellow, 2 the green.
\<close>

definition shown_mode :: "driver \<Rightarrow> nat \<Rightarrow> mode" where
  "shown_mode st i =
     (if gpio_index st = int i then Blinking
      else if gpio_level st (fst (led_array ! i)) then On
      else Off)"

definition shown_pattern :: "driver \<Rightarrow> output_pattern" where
  "shown_pattern st = \<lparr>red = shown_mode st 0, yellow = shown_mode st 1, green = shown_mode st 2\<rparr>"

subsection \<open>Values used in the examples\<close>

text \<open>\<^verbatim>\<open>msecs_to_jiffies\<close> of a kernel that ticks 100 times a second: one tick is ten
  milliseconds, and a delay is rounded up to whole ticks.\<close>

definition msecs_to_jiffies_hz100 :: "nat \<Rightarrow> jiffies" where
  "msecs_to_jiffies_hz100 m = of_nat ((m + 9) div 10)"

text \<open>
  A state the driver reaches: a sample of 50000 milli-degrees under the default
  thresholds, after which the green threshold is raised to 55000 through its attribute.
\<close>

definition example_before_failed_sample :: driver where
  "example_before_failed_sample =
     fst (sysfs_green_store (Some 55000) 6
       (thermal_callback 0 msecs_to_jiffies_hz100 (Inr 50000) driver_loaded))"

text \<open>The loopback device after \<^verbatim>\<open>"abc"\<close> has been written to the freshly loaded
  module.\<close>

definition example_abc_written :: driver where
  "example_abc_written =
     driver_loaded\<lparr>data_size := 3,
       data_buffer := ''abc'' @ replicate (BUFFER_SIZE - 3) (CHR 0x00)\<rparr>"

text \<open>An environment in which every kernel call of \<^verbatim>\<open>temp_led_init\<close> succeeds.\<close>

definition env_all_ok :: init_env where
  "env_all_ok =
     \<lparr> alloc_chrdev_region_ret = 0, cdev_add_ret = 0, class_create_ok = True,
       device_create_ok = True, sysfs_create_green_ret = 0, sysfs_create_yellow_ret = 0,
       sysfs_create_red_ret = 0, proc_mkdir_ok = True, proc_create_ok = True,
       gpio_request_array_ret = 0, zone_by_name = Tz_zone, first_reading = Inr 45678 \<rparr>"

section \<open>Properties of the two timer callbacks\<close>

subsection \<open>The sample callback as a single update\<close>

lemma errno_val_pos: "0 < errno_val e"
  by (cases e) simp_all

text \<open>
  The callback changes five fields: the stored temperature (only when the sensor
  answers), the log (only when it does not), the active index, the three LED lines and
  the expiry of its own timer.
\<close>

lemma thermal_callback_unfold:
  "thermal_callback now m2j reading st =
     (let t = (case reading of Inr v \<Rightarrow> v | Inl e \<Rightarrow> temp st);
          lg = (case reading of Inr v \<Rightarrow> klog st
                | Inl e \<Rightarrow> klog st @ [''thermal_callback Failed to get temperature\<newline>'']);
          (i, r, y, g) =
            (if t < to_temp_green st then (2, False, False, True)
             else if t < to_temp_yellow st then (1, False, True, False)
             else if t < to_temp_red st then (0, True, False, False)
             else (0, True, True, True))
      in st\<lparr>temp := t, klog := lg, gpio_index := i,
            gpio_level := (gpio_level st)(GPIO_5 := r, GPIO_6 := y, GPIO_26 := g),
            timer_thermal := Some (now + m2j TIMEOUT)\<rparr>)"
  using errno_val_pos [of "projl reading"]
  by (cases reading)
     (simp_all add: thermal_callback_def thermal_zone_get_temp_def pr_err_def gpio_set_value_def
        Let_def)

lemma thermal_callback_temp:
  "temp (thermal_callback now m2j reading st) = (case reading of Inr t \<Rightarrow> t | Inl e \<Rightarrow> temp st)"
  by (simp add: thermal_callback_unfold Let_def split: sum.splits)

lemma shown_pattern_thermal:
  "shown_pattern (thermal_callback now m2j reading st) =
     spec_pattern (spec_band (temp (thermal_callback now m2j reading st))
       (to_temp_green st) (to_temp_yellow st) (to_temp_red st))"
  by (simp add: thermal_callback_unfold shown_pattern_def shown_mode_def spec_band_def Let_def
      led_array_def GPIO_5_def GPIO_6_def GPIO_26_def split: sum.splits)

lemma spec_pattern_inj: "spec_pattern a = spec_pattern b \<longleftrightarrow> a = b"
  by (cases a; cases b) simp_all

lemma thermal_callback_gpio_index:
  "gpio_index (thermal_callback now m2j reading st) =
     (let t = temp (thermal_callback now m2j reading st)
      in if t < to_temp_green st then 2 else if t < to_temp_yellow st then 1 else 0)"
  by (simp add: thermal_callback_unfold Let_def split: sum.splits)

lemma thermal_callback_index_range:
  "0 \<le> gpio_index (thermal_callback now m2j reading st)
   \<and> gpio_index (thermal_callback now m2j reading st) < 3"
  by (simp add: thermal_callback_gpio_index Let_def)

lemma thermal_callback_flag_timer:
  "flag_timer (thermal_callback now m2j reading st) = flag_timer st"
  by (simp add: thermal_callback_unfold Let_def split: sum.splits prod.splits)

lemma thermal_callback_levels:
  "gpio_level (thermal_callback now m2j reading st) =
     (let t = temp (thermal_callback now m2j reading st);
          (r, y, g) = (if t < to_temp_green st then (False, False, True)
                       else if t < to_temp_yellow st then (False, True, False)
                       else if t < to_temp_red st then (True, False, False)
                       else (True, True, True))
      in (gpio_level st)(GPIO_5 := r, GPIO_6 := y, GPIO_26 := g))"
  by (simp add: thermal_callback_unfold Let_def split: sum.splits)

lemma thermal_callback_timer:
  "timer_thermal (thermal_callback now m2j reading st) = Some (now + m2j TIMEOUT)"
  by (simp add: thermal_callback_unfold Let_def split: sum.splits prod.splits)

subsection \<open>Classification\<close>

text \<open>
  Claim C1, as amended. The sample callback is a total function, and the pattern it
  leaves on the outputs is the specification's pattern for the band that the strict,
  sequential, first-match test gives for the stored temperature and the three
  thresholds, whatever their order: below the green ceiling LOW (green blinking, red and
  yellow off); otherwise below the yellow ceiling MID; otherwise below the red ceiling
  HIGH; otherwise CRITICAL (red blinking, yellow and green on). The stored temperature
  is the reading, or the previous value when the sensor fails. A temperature equal to
  the green ceiling is never LOW, and it is MID exactly when the green ceiling is below
  the yellow ceiling. A temperature at or above the red ceiling is CRITICAL exactly when
  it is also at or above the green and the yellow ceiling, which is always so when the
  ceilings are ordered.
\<close>

theorem thermal_callback_classifies:
  "let st' = thermal_callback now m2j reading st;
       t = temp st'; g = to_temp_green st; y = to_temp_yellow st; r = to_temp_red st
   in t = (case reading of Inr v \<Rightarrow> v | Inl e \<Rightarrow> temp st)
      \<and> shown_pattern st' = spec_pattern (spec_band t g y r)
      \<and> (t < g \<longrightarrow> shown_pattern st' = spec_pattern LOW)
      \<and> (\<not> t < g \<and> t < y \<longrightarrow> shown_pattern st' = spec_pattern MID)
      \<and> (\<not> t < g \<and> \<not> t < y \<and> t < r \<longrightarrow> shown_pattern st' = spec_pattern HIGH)
      \<and> (\<not> t < g \<and> \<not> t < y \<and> \<not> t < r \<longrightarrow> shown_pattern st' = spec_pattern CRITICAL)
      \<and> (t = g \<longrightarrow> shown_pattern st' \<noteq> spec_pattern LOW)
      \<and> (t = g \<longrightarrow> (shown_pattern st' = spec_pattern MID \<longleftrightarrow> g < y))
      \<and> (r \<le> t \<longrightarrow> (shown_pattern st' = spec_pattern CRITICAL \<longleftrightarrow> g \<le> t \<and> y \<le> t))
      \<and> (r \<le> t \<and> g \<le> y \<and> y \<le> r \<longrightarrow> shown_pattern st' = spec_pattern CRITICAL)"
  unfolding Let_def shown_pattern_thermal spec_pattern_inj thermal_callback_temp
  by (auto simp: spec_band_def)

text \<open>The theorem at the default thresholds, at 39999, 40000, 60000 and 75000
  milli-degrees.\<close>

theorem thermal_callback_classifies_witness:
  "shown_pattern (thermal_callback 0 msecs_to_jiffies_hz100 (Inr 40000) driver_loaded)
     = spec_pattern MID
   \<and> shown_pattern (thermal_callback 0 msecs_to_jiffies_hz100 (Inr 39999) driver_loaded)
     = spec_pattern LOW
   \<and> shown_pattern (thermal_callback 0 msecs_to_jiffies_hz100 (Inr 60000) driver_loaded)
     = spec_pattern HIGH
   \<and> shown_pattern (thermal_callback 0 msecs_to_jiffies_hz100 (Inr 75000) driver_loaded)
     = spec_pattern CRITICAL"
  using thermal_callback_classifies [of 0 msecs_to_jiffies_hz100 "Inr 40000" driver_loaded]
        thermal_callback_classifies [of 0 msecs_to_jiffies_hz100 "Inr 39999" driver_loaded]
        thermal_callback_classifies [of 0 msecs_to_jiffies_hz100 "Inr 60000" driver_loaded]
        thermal_callback_classifies [of 0 msecs_to_jiffies_hz100 "Inr 75000" driver_loaded]
  by (simp add: Let_def thermal_callback_temp driver_loaded_def spec_band_def)

text \<open>
  Claim C1 as it was stated fails for thresholds that are not ordered. With the yellow
  ceiling lowered to 30000, a temperature equal to the green ceiling (40000) is HIGH,
  not MID; with the green ceiling raised to 90000, a temperature of 80000, above the red
  ceiling (75000), is LOW, not CRITICAL.
\<close>

theorem boundary_not_always_mid:
  "shown_pattern (thermal_callback 0 msecs_to_jiffies_hz100 (Inr 40000)
      (fst (sysfs_yellow_store (Some 30000) 6 driver_loaded))) = spec_pattern HIGH
   \<and> shown_pattern (thermal_callback 0 msecs_to_jiffies_hz100 (Inr 40000)
      (fst (sysfs_yellow_store (Some 30000) 6 driver_loaded))) \<noteq> spec_pattern MID
   \<and> temp (thermal_callback 0 msecs_to_jiffies_hz100 (Inr 40000)
      (fst (sysfs_yellow_store (Some 30000) 6 driver_loaded)))
      = to_temp_green (fst (sysfs_yellow_store (Some 30000) 6 driver_loaded))
   \<and> shown_pattern (thermal_callback 0 msecs_to_jiffies_hz100 (Inr 80000)
      (fst (sysfs_green_store (Some 90000) 6 driver_loaded))) = spec_pattern LOW
   \<and> shown_pattern (thermal_callback 0 msecs_to_jiffies_hz100 (Inr 80000)
      (fst (sysfs_green_store (Some 90000) 6 driver_loaded))) \<noteq> spec_pattern CRITICAL
   \<and> to_temp_red (fst (sysfs_green_store (Some 90000) 6 driver_loaded)) \<le>
      temp (thermal_callback 0 msecs_to_jiffies_hz100 (Inr 80000)
        (fst (sysfs_green_store (Some 90000) 6 driver_loaded)))"
  by (simp add: thermal_callback_unfold shown_pattern_def shown_mode_def Let_def
      led_array_def GPIO_5_def GPIO_6_def GPIO_26_def driver_loaded_def
      sysfs_yellow_store_def sysfs_green_store_def)

subsection \<open>The blink callback\<close>

lemma timer_blink_callback_unfold:
  assumes "0 \<le> gpio_index st" and "gpio_index st < 3"
  shows "timer_blink_callback now m2j st =
     Some (st\<lparr>gpio_level := (gpio_level st)(fst (led_array ! nat (gpio_index st)) := flag_timer st),
              timer_blink := Some (now + m2j (if flag_timer st then 1 else 10)),
              flag_timer := \<not> flag_timer st\<rparr>)"
  using assms
  by (simp add: timer_blink_callback_def gpio_set_value_def Let_def led_array_def)

lemma timer_blink_callback_gpio_index:
  "timer_blink_callback now m2j st = Some s \<Longrightarrow> gpio_index s = gpio_index st"
  by (auto simp: timer_blink_callback_def gpio_set_value_def Let_def split: if_splits)

text \<open>
  Claim C2. With the active index inside the array, a firing of the blink callback runs
  one of two branches, chosen by \<^verbatim>\<open>flag_timer\<close>, and negates the flag: with the flag
  clear it drives the line at the active index low and re-arms the timer
  \<^verbatim>\<open>msecs_to_jiffies(10)\<close> after the firing; with the flag set it drives that line high and
  re-arms the timer \<^verbatim>\<open>msecs_to_jiffies(1)\<close> after the firing. So the next firing runs the
  other branch, and it acts on the index that is current then: here the next firing
  is taken both directly (on \<open>st1\<close>) and after a sample firing that may have moved the
  index (on \<open>sa\<close>).
\<close>

theorem timer_blink_callback_alternates:
  assumes "0 \<le> gpio_index st" and "gpio_index st < 3"
  shows
    "let pin = fst (led_array ! nat (gpio_index st));
         st1 = (if flag_timer st = False
                then st\<lparr>gpio_level := (gpio_level st)(pin := False),
                        timer_blink := Some (now + m2j 10), flag_timer := True\<rparr>
                else st\<lparr>gpio_level := (gpio_level st)(pin := True),
                        timer_blink := Some (now + m2j 1), flag_timer := False\<rparr>);
         sa = thermal_callback now1 m2j reading st1;
         pin' = fst (led_array ! nat (gpio_index sa))
     in timer_blink_callback now m2j st = Some st1
        \<and> flag_timer st1 = (\<not> flag_timer st)
        \<and> timer_blink_callback now2 m2j st1 =
            Some (if flag_timer st = False
                  then st1\<lparr>gpio_level := (gpio_level st1)(pin := True),
                           timer_blink := Some (now2 + m2j 1), flag_timer := False\<rparr>
                  else st1\<lparr>gpio_level := (gpio_level st1)(pin := False),
                           timer_blink := Some (now2 + m2j 10), flag_timer := True\<rparr>)
        \<and> timer_blink_callback now2 m2j sa =
            Some (if flag_timer st = False
                  then sa\<lparr>gpio_level := (gpio_level sa)(pin' := True),
                          timer_blink := Some (now2 + m2j 1), flag_timer := False\<rparr>
                  else sa\<lparr>gpio_level := (gpio_level sa)(pin' := False),
                          timer_blink := Some (now2 + m2j 10), flag_timer := True\<rparr>)"
proof -
  let ?pin = "fst (led_array ! nat (gpio_index st))"
  let ?st1 = "st\<lparr>gpio_level := (gpio_level st)(?pin := flag_timer st),
              timer_blink := Some (now + m2j (if flag_timer st then 1 else 10)),
              flag_timer := \<not> flag_timer st\<rparr>"
  have first: "timer_blink_callback now m2j st = Some ?st1"
    using assms by (rule timer_blink_callback_unfold)
  have idx1: "0 \<le> gpio_index ?st1" "gpio_index ?st1 < 3"
    using assms by simp_all
  have second: "timer_blink_callback now2 m2j ?st1 =
      Some (?st1\<lparr>gpio_level := (gpio_level ?st1)(?pin := \<not> flag_timer st),
               timer_blink := Some (now2 + m2j (if flag_timer st then 10 else 1)),
               flag_timer := flag_timer st\<rparr>)"
    using timer_blink_callback_unfold [OF idx1, of now2 m2j] by simp
  let ?sa = "thermal_callback now1 m2j reading ?st1"
  have idx2: "0 \<le> gpio_index ?sa" "gpio_index ?sa < 3"
    using thermal_callback_index_range [of now1 m2j reading ?st1] by simp_all
  have third: "timer_blink_callback now2 m2j ?sa =
      Some (?sa\<lparr>gpio_level := (gpio_level ?sa)(fst (led_array ! nat (gpio_index ?sa)) := \<not> flag_timer st),
               timer_blink := Some (now2 + m2j (if flag_timer st then 10 else 1)),
               flag_timer := flag_timer st\<rparr>)"
    using timer_blink_callback_unfold [OF idx2, of now2 m2j]
    by (simp add: thermal_callback_flag_timer)
  show ?thesis
  proof (cases "flag_timer st")
    case True
    with first second third show ?thesis by (simp add: Let_def)
  next
    case False
    with first second third show ?thesis by (simp add: Let_def)
  qed
qed

text \<open>The theorem on the freshly loaded state, for two firings one tick apart.\<close>

theorem timer_blink_callback_alternates_witness:
  "0 \<le> gpio_index driver_loaded \<and> gpio_index driver_loaded < 3
   \<and> timer_blink_callback 100 msecs_to_jiffies_hz100 driver_loaded =
       Some (driver_loaded\<lparr>gpio_level := (gpio_level driver_loaded)(GPIO_5 := False),
               timer_blink := Some 101, flag_timer := True\<rparr>)
   \<and> timer_blink_callback 101 msecs_to_jiffies_hz100
        (driver_loaded\<lparr>gpio_level := (gpio_level driver_loaded)(GPIO_5 := False),
               timer_blink := Some 101, flag_timer := True\<rparr>) =
       Some (driver_loaded\<lparr>gpio_level := (gpio_level driver_loaded)(GPIO_5 := True),
               timer_blink := Some 102, flag_timer := False\<rparr>)"
  using timer_blink_callback_alternates
    [of driver_loaded 100 msecs_to_jiffies_hz100 0 "Inr 0" 101]
  by (simp add: Let_def driver_loaded_def led_array_def msecs_to_jiffies_hz100_def)

subsection \<open>The active index and its only writer\<close>

lemma dev_open_gpio_index: "gpio_index (fst (dev_open st)) = gpio_index st"
  by (simp add: dev_open_def pr_err_def)

lemma dev_release_gpio_index: "gpio_index (fst (dev_release st)) = gpio_index st"
  by (simp add: dev_release_def)

lemma dev_read_gpio_index:
  "dev_read w l st = Some (s, out, rv) \<Longrightarrow> gpio_index s = gpio_index st"
  by (auto simp: dev_read_def pr_err_def Let_def split: if_splits prod.splits)

lemma dev_write_gpio_index:
  "dev_write b l st = Some (s, rv) \<Longrightarrow> gpio_index s = gpio_index st"
  by (auto simp: dev_write_def pr_err_def Let_def split: if_splits prod.splits)

lemma hello_read_gpio_index:
  "hello_read rd w c p st = Some (s, out, rv, p') \<Longrightarrow> gpio_index s = gpio_index st"
  by (cases rd)
     (auto simp: hello_read_def thermal_zone_get_temp_def pr_err_def Let_def
        split: if_splits prod.splits)

lemma sysfs_store_gpio_index:
  "gpio_index (fst (sysfs_green_store v c st)) = gpio_index st"
  "gpio_index (fst (sysfs_yellow_store v c st)) = gpio_index st"
  "gpio_index (fst (sysfs_red_store v c st)) = gpio_index st"
  by (simp_all add: sysfs_green_store_def sysfs_yellow_store_def sysfs_red_store_def
      split: option.splits)

lemma gpio_request_array_gpio_index:
  "gpio_index (gpio_request_array arr st) = gpio_index st"
  unfolding gpio_request_array_def
  by (induction arr arbitrary: st) (auto simp: gpio_set_value_def split: gpio_flags.splits)

lemma temp_led_init_gpio_index:
  "gpio_index (fst (temp_led_init env now m2j st)) = gpio_index st"
  by (simp add: temp_led_init_def Let_def pr_err_def thermal_zone_get_temp_def
      gpio_request_array_gpio_index split: sum.splits tz_pointer.splits prod.splits)

lemma temp_led_exit_gpio_index: "gpio_index (fst (temp_led_exit st)) = gpio_index st"
  by (simp add: temp_led_exit_def)

text \<open>
  Claim C3. A firing of the sample callback sets \<^verbatim>\<open>gpio_index\<close> to the position in
  \<^verbatim>\<open>led_array\<close> of the line that blinks in the pattern of the band: 2 (line 26, green)
  for LOW, 1 (line 6, yellow) for MID, 0 (line 5, red) for HIGH and for CRITICAL, so the
  index is one of 0, 1, 2. It writes all three LED lines, whatever their level was, and
  re-arms its timer \<^verbatim>\<open>msecs_to_jiffies(5000)\<close> after the firing. No other entry point of
  the module changes \<^verbatim>\<open>gpio_index\<close>.
\<close>

theorem thermal_callback_sets_active_index:
  "let st' = thermal_callback now m2j reading st;
       t = temp st'; g = to_temp_green st; y = to_temp_yellow st; r = to_temp_red st
   in gpio_index st' = (if t < g then 2 else if t < y then 1 else 0)
      \<and> fst (led_array ! nat (gpio_index st')) =
          (if t < g then GPIO_26 else if t < y then GPIO_6 else GPIO_5)
      \<and> gpio_index st' \<in> {0, 1, 2}
      \<and> gpio_level st' =
          (let (lr, ly, lg) = (if t < g then (False, False, True)
                               else if t < y then (False, True, False)
                               else if t < r then (True, False, False)
                               else (True, True, True))
           in (gpio_level st)(GPIO_5 := lr, GPIO_6 := ly, GPIO_26 := lg))
      \<and> timer_thermal st' = Some (now + m2j 5000)
      \<and> (\<forall>n s. timer_blink_callback n m2j st = Some s \<longrightarrow> gpio_index s = gpio_index st)
      \<and> gpio_index (fst (dev_open st)) = gpio_index st
      \<and> gpio_index (fst (dev_release st)) = gpio_index st
      \<and> (\<forall>w l s out rv. dev_read w l st = Some (s, out, rv) \<longrightarrow> gpio_index s = gpio_index st)
      \<and> (\<forall>b l s rv. dev_write b l st = Some (s, rv) \<longrightarrow> gpio_index s = gpio_index st)
      \<and> (\<forall>rd w c p s out rv p'. hello_read rd w c p st = Some (s, out, rv, p')
            \<longrightarrow> gpio_index s = gpio_index st)
      \<and> (\<forall>v c. gpio_index (fst (sysfs_green_store v c st)) = gpio_index st)
      \<and> (\<forall>v c. gpio_index (fst (sysfs_yellow_store v c st)) = gpio_index st)
      \<and> (\<forall>v c. gpio_index (fst (sysfs_red_store v c st)) = gpio_index st)
      \<and> (\<forall>env n. gpio_index (fst (temp_led_init env n m2j st)) = gpio_index st)
      \<and> gpio_index (fst (temp_led_exit st)) = gpio_index st"
proof -
  let ?st' = "thermal_callback now m2j reading st"
  have idx: "gpio_index ?st' =
      (if temp ?st' < to_temp_green st then 2 else if temp ?st' < to_temp_yellow st then 1 else 0)"
    by (simp add: thermal_callback_gpio_index Let_def)
  have pin: "fst (led_array ! nat (gpio_index ?st')) =
      (if temp ?st' < to_temp_green st then GPIO_26
       else if temp ?st' < to_temp_yellow st then GPIO_6 else GPIO_5)"
    by (simp add: idx led_array_def)
  have rng: "gpio_index ?st' \<in> {0, 1, 2}"
    by (simp add: idx)
  have tm: "timer_thermal ?st' = Some (now + m2j 5000)"
    by (simp add: thermal_callback_timer TIMEOUT_def)
  show ?thesis
    unfolding Let_def
    using idx pin rng tm thermal_callback_levels [of now m2j reading st]
      timer_blink_callback_gpio_index [of _ m2j st]
      dev_read_gpio_index [of _ _ st] dev_write_gpio_index [of _ _ st]
      hello_read_gpio_index [of _ _ _ _ st]
    by (simp add: Let_def dev_open_gpio_index dev_release_gpio_index sysfs_store_gpio_index
        temp_led_init_gpio_index temp_led_exit_gpio_index)
qed

text \<open>The theorem at the default thresholds, for the readings 38000, 55000, 70000 and
  90000, and for a blink firing after the first of them.\<close>

theorem thermal_callback_sets_active_index_witness:
  "gpio_index (thermal_callback 0 msecs_to_jiffies_hz100 (Inr 38000) driver_loaded) = 2
   \<and> fst (led_array ! 2) = GPIO_26
   \<and> gpio_index (thermal_callback 0 msecs_to_jiffies_hz100 (Inr 55000) driver_loaded) = 1
   \<and> gpio_index (thermal_callback 0 msecs_to_jiffies_hz100 (Inr 70000) driver_loaded) = 0
   \<and> gpio_index (thermal_callback 0 msecs_to_jiffies_hz100 (Inr 90000) driver_loaded) = 0
   \<and> timer_thermal (thermal_callback 0 msecs_to_jiffies_hz100 (Inr 90000) driver_loaded)
       = Some 500
   \<and> (\<exists>s. timer_blink_callback 0 msecs_to_jiffies_hz100
              (thermal_callback 0 msecs_to_jiffies_hz100 (Inr 38000) driver_loaded) = Some s
            \<and> gpio_index s = 2)"
  using thermal_callback_sets_active_index [of 0 msecs_to_jiffies_hz100 "Inr 38000" driver_loaded]
    thermal_callback_sets_active_index [of 0 msecs_to_jiffies_hz100 "Inr 55000" driver_loaded]
    thermal_callback_sets_active_index [of 0 msecs_to_jiffies_hz100 "Inr 70000" driver_loaded]
    thermal_callback_sets_active_index [of 0 msecs_to_jiffies_hz100 "Inr 90000" driver_loaded]
    thermal_callback_sets_active_index [of 0 msecs_to_jiffies_hz100 "Inr 38000"
       "thermal_callback 0 msecs_to_jiffies_hz100 (Inr 38000) driver_loaded"]
  by (simp add: Let_def thermal_callback_temp driver_loaded_def led_array_def
      msecs_to_jiffies_hz100_def timer_blink_callback_def gpio_set_value_def)

subsection \<open>A failed sensor query\<close>

text \<open>
  Claim C4 as it was stated fails: on a failed query the callback logs the failure and
  then writes the outputs all the same, from the stored temperature and the thresholds
  of the moment. In the example the previous sample (50000) showed MID; the green
  ceiling was raised to 55000 since; the sample whose query fails moves the outputs to
  the pattern of LOW.
\<close>

theorem failed_read_updates_outputs:
  "klog (thermal_callback 500 msecs_to_jiffies_hz100 (Inl EINVAL) example_before_failed_sample)
     = [''thermal_callback Failed to get temperature\<newline>'']
   \<and> gpio_level example_before_failed_sample GPIO_6 = True
   \<and> gpio_level (thermal_callback 500 msecs_to_jiffies_hz100 (Inl EINVAL)
        example_before_failed_sample) GPIO_6 = False
   \<and> gpio_level example_before_failed_sample GPIO_26 = False
   \<and> gpio_level (thermal_callback 500 msecs_to_jiffies_hz100 (Inl EINVAL)
        example_before_failed_sample) GPIO_26 = True
   \<and> gpio_index example_before_failed_sample = 1
   \<and> gpio_index (thermal_callback 500 msecs_to_jiffies_hz100 (Inl EINVAL)
        example_before_failed_sample) = 2"
  by (simp add: example_before_failed_sample_def thermal_callback_unfold Let_def
      sysfs_green_store_def driver_loaded_def GPIO_5_def GPIO_6_def GPIO_26_def)

text \<open>
  Claim C4, as amended. When the query fails in a sample cycle, the failure is logged,
  the stored temperature is not updated, and the three LED lines and the active index
  are written for that cycle as the band of the stored temperature under the current
  thresholds demands.
\<close>

theorem thermal_callback_failed_read_writes_outputs:
  "let st' = thermal_callback now m2j (Inl e) st;
       t = temp st; g = to_temp_green st; y = to_temp_yellow st; r = to_temp_red st
   in klog st' = klog st @ [''thermal_callback Failed to get temperature\<newline>'']
      \<and> temp st' = t
      \<and> gpio_level st' GPIO_5 = (if t < g then False else if t < y then False else True)
      \<and> gpio_level st' GPIO_6 =
          (if t < g then False else if t < y then True else if t < r then False else True)
      \<and> gpio_level st' GPIO_26 =
          (if t < g then True else if t < y then False else if t < r then False else True)
      \<and> gpio_index st' = (if t < g then 2 else if t < y then 1 else 0)"
  by (simp add: thermal_callback_unfold Let_def GPIO_5_def GPIO_6_def GPIO_26_def)

text \<open>
  Claim C5. When the query fails in a sample cycle, the stored temperature keeps the
  value of the previous cycle, and the cycle goes on: the callback returns, it has
  classified the stored value (the outputs show the pattern of its band), and it has
  re-armed its timer \<^verbatim>\<open>msecs_to_jiffies(5000)\<close> after the firing. Beside the log, the
  active index, the LED lines and the timer, no field of the state changes.
\<close>

theorem thermal_callback_failed_read_proceeds:
  "thermal_callback now m2j (Inl e) st =
     st\<lparr>klog := klog st @ [''thermal_callback Failed to get temperature\<newline>''],
        gpio_index := gpio_index (thermal_callback now m2j (Inl e) st),
        gpio_level := gpio_level (thermal_callback now m2j (Inl e) st),
        timer_thermal := Some (now + m2j TIMEOUT)\<rparr>
   \<and> temp (thermal_callback now m2j (Inl e) st) = temp st
   \<and> shown_pattern (thermal_callback now m2j (Inl e) st) =
       spec_pattern (spec_band (temp st) (to_temp_green st) (to_temp_yellow st) (to_temp_red st))
   \<and> gpio_index (thermal_callback now m2j (Inl e) st) =
       (if temp st < to_temp_green st then 2 else if temp st < to_temp_yellow st then 1 else 0)
   \<and> timer_thermal (thermal_callback now m2j (Inl e) st) = Some (now + m2j 5000)"
proof -
  have "temp (thermal_callback now m2j (Inl e) st) = temp st"
    by (simp add: thermal_callback_temp)
  moreover have "thermal_callback now m2j (Inl e) st =
     st\<lparr>klog := klog st @ [''thermal_callback Failed to get temperature\<newline>''],
        gpio_index := gpio_index (thermal_callback now m2j (Inl e) st),
        gpio_level := gpio_level (thermal_callback now m2j (Inl e) st),
        timer_thermal := Some (now + m2j TIMEOUT)\<rparr>"
    by (simp add: thermal_callback_unfold Let_def)
  moreover have "shown_pattern (thermal_callback now m2j (Inl e) st) =
       spec_pattern (spec_band (temp st) (to_temp_green st) (to_temp_yellow st) (to_temp_red st))"
    by (simp add: shown_pattern_thermal thermal_callback_temp)
  moreover have "gpio_index (thermal_callback now m2j (Inl e) st) =
       (if temp st < to_temp_green st then 2 else if temp st < to_temp_yellow st then 1 else 0)"
    by (simp add: thermal_callback_gpio_index thermal_callback_temp Let_def)
  moreover have "timer_thermal (thermal_callback now m2j (Inl e) st) = Some (now + m2j 5000)"
    by (simp add: thermal_callback_timer TIMEOUT_def)
  ultimately show ?thesis by blast
qed

section \<open>Properties of the loopback device\<close>

subsection \<open>Lengths that fit\<close>

text \<open>
  The kernel never hands a driver a length above \<^verbatim>\<open>MAX_RW_COUNT\<close>, which is below
  \<open>2\<^sup>3\<^sup>1\<close>: such a length survives the assignment to the \<^verbatim>\<open>int\<close> variable
  \<^verbatim>\<open>data_size\<close>. The last lemma shows what the assignment does to a larger one.
\<close>

lemma int_of_size_t_small: "n < 2 ^ 31 \<Longrightarrow> int_of_size_t n = int n"
  by (simp add: int_of_size_t_def Let_def)

lemma size_t_of_int_small: "0 \<le> i \<Longrightarrow> i < 2 ^ 32 \<Longrightarrow> size_t_of_int i = nat i"
  by (simp add: size_t_of_int_def)

lemma dev_write_length_beyond_int:
  "dev_write buffer (2 ^ 31) st = None"
  by (simp add: dev_write_def int_of_size_t_def size_t_of_int_def BUFFER_SIZE_def Let_def)

subsection \<open>Write and read when the copy succeeds\<close>

lemma dev_write_ok:
  assumes "len < 2 ^ 31" and "len \<le> length buffer"
  shows "dev_write buffer len st =
     Some (st\<lparr>data_size := int (min len BUFFER_SIZE),
              data_buffer := take (min len BUFFER_SIZE) buffer
                             @ drop (min len BUFFER_SIZE) (data_buffer st)\<rparr>,
           int (min len BUFFER_SIZE))"
proof (cases "len \<le> BUFFER_SIZE")
  case True
  then have "size_t_of_int (int len) = len"
    by (simp add: size_t_of_int_small BUFFER_SIZE_def)
  with True assms show ?thesis
    by (simp add: dev_write_def int_of_size_t_small copy_from_user_def Let_def min_def)
next
  case False
  have "size_t_of_int (int BUFFER_SIZE) = BUFFER_SIZE"
    by (simp add: size_t_of_int_small BUFFER_SIZE_def)
  with False assms show ?thesis
    by (simp add: dev_write_def int_of_size_t_small copy_from_user_def Let_def min_def)
qed

lemma dev_read_ok:
  assumes "0 \<le> data_size st" and "data_size st \<le> int BUFFER_SIZE"
    and "min len (nat (data_size st)) \<le> writable"
  shows "dev_read writable len st =
     Some (st\<lparr>data_size := 0\<rparr>, take (min len (nat (data_size st))) (data_buffer st),
           int (min len (nat (data_size st))))"
proof -
  have sz: "size_t_of_int (data_size st) = nat (data_size st)"
    using assms(1,2) by (simp add: size_t_of_int_small BUFFER_SIZE_def)
  show ?thesis
    using assms by (auto simp: dev_read_def sz copy_to_user_def Let_def min_def)
qed

lemma dev_read_empty:
  assumes "data_size st = 0"
  shows "dev_read writable len st = Some (st, [], 0)"
  using assms by (simp add: dev_read_def size_t_of_int_def copy_to_user_def Let_def)

lemma dev_read_success_resets:
  assumes "dev_read writable len st = Some (s, out, rv)" and "0 \<le> rv"
  shows "data_size s = 0"
  using assms
  by (auto simp: dev_read_def Let_def split: if_splits prod.splits)

text \<open>
  Claim C6. A write of \<open>len\<close> bytes that the caller's pointer can supply stores
  \<open>min len 1024\<close> of them at the start of the buffer, records that length and returns it.
  A read that follows, asking for at least that many bytes into a buffer that can take
  them, returns exactly the stored bytes; a second read, whatever it asks for, returns
  no byte and the value 0.
\<close>

theorem dev_write_read_roundtrip:
  assumes "len < 2 ^ 31" and "len \<le> length buffer"
    and "min len BUFFER_SIZE \<le> rlen" and "min len BUFFER_SIZE \<le> writable"
  shows
    "let k = min len BUFFER_SIZE;
         st1 = st\<lparr>data_size := int k, data_buffer := take k buffer @ drop k (data_buffer st)\<rparr>;
         st2 = st1\<lparr>data_size := 0\<rparr>
     in k = min len 1024
        \<and> dev_write buffer len st = Some (st1, int k)
        \<and> take k (data_buffer st1) = take k buffer
        \<and> dev_read writable rlen st1 = Some (st2, take k buffer, int k)
        \<and> dev_read writable2 rlen2 st2 = Some (st2, [], 0)"
proof -
  let ?k = "min len BUFFER_SIZE"
  let ?st1 = "st\<lparr>data_size := int ?k, data_buffer := take ?k buffer @ drop ?k (data_buffer st)\<rparr>"
  have lk: "length (take ?k buffer) = ?k"
    using assms(2) by simp
  have w: "dev_write buffer len st = Some (?st1, int ?k)"
    using assms(1,2) by (rule dev_write_ok)
  have pre: "take ?k (data_buffer ?st1) = take ?k buffer"
    using lk by simp
  have "dev_read writable rlen ?st1 =
      Some (?st1\<lparr>data_size := 0\<rparr>, take (min rlen (nat (data_size ?st1))) (data_buffer ?st1),
            int (min rlen (nat (data_size ?st1))))"
    using assms(3,4) by (intro dev_read_ok) (simp_all add: min_def)
  moreover have "min rlen (nat (data_size ?st1)) = ?k"
    using assms(3) by simp
  ultimately have r: "dev_read writable rlen ?st1 = Some (?st1\<lparr>data_size := 0\<rparr>, take ?k buffer, int ?k)"
    using pre by simp
  have r2: "dev_read writable2 rlen2 (?st1\<lparr>data_size := 0\<rparr>) = Some (?st1\<lparr>data_size := 0\<rparr>, [], 0)"
    by (rule dev_read_empty) simp
  show ?thesis
    unfolding Let_def using w pre r r2 by (simp add: BUFFER_SIZE_def)
qed

text \<open>The theorem for \<^verbatim>\<open>"abc"\<close> written to the freshly loaded module.\<close>

theorem dev_write_read_roundtrip_witness:
  "(3::nat) < 2 ^ 31 \<and> 3 \<le> length ''abc''
   \<and> dev_write ''abc'' 3 driver_loaded = Some (example_abc_written, 3)
   \<and> dev_read 4096 4096 example_abc_written
       = Some (example_abc_written\<lparr>data_size := 0\<rparr>, ''abc'', 3)
   \<and> dev_read 4096 4096 (example_abc_written\<lparr>data_size := 0\<rparr>)
       = Some (example_abc_written\<lparr>data_size := 0\<rparr>, [], 0)"
  using dev_write_read_roundtrip [of 3 "''abc''" 4096 4096 driver_loaded 4096 4096]
  by (simp add: Let_def example_abc_written_def driver_loaded_def BUFFER_SIZE_def)

text \<open>
  Claim C10. While \<^verbatim>\<open>data_size\<close> is within the buffer, a read whose copy succeeds returns
  the first \<open>min len data_size\<close> stored bytes and sets \<^verbatim>\<open>data_size\<close> to zero, however many
  bytes it returned; the bytes it did not return cannot be read any more, since the
  next read returns no byte. In any state, a read that does not fail leaves
  \<^verbatim>\<open>data_size\<close> at zero.
\<close>

theorem dev_read_resets_data_size:
  assumes "0 \<le> data_size st" and "data_size st \<le> int BUFFER_SIZE"
    and "min len (nat (data_size st)) \<le> writable"
  shows
    "let k = min len (nat (data_size st)); st' = st\<lparr>data_size := 0\<rparr>
     in dev_read writable len st = Some (st', take k (data_buffer st), int k)
        \<and> data_size st' = 0
        \<and> dev_read writable2 len2 st' = Some (st', [], 0)
        \<and> (\<forall>w l s out rv. dev_read w l st = Some (s, out, rv) \<and> 0 \<le> rv \<longrightarrow> data_size s = 0)"
proof -
  have "dev_read writable2 len2 (st\<lparr>data_size := 0\<rparr>) = Some (st\<lparr>data_size := 0\<rparr>, [], 0)"
    by (rule dev_read_empty) simp
  moreover have "\<forall>w l s out rv. dev_read w l st = Some (s, out, rv) \<and> 0 \<le> rv \<longrightarrow> data_size s = 0"
    using dev_read_success_resets by blast
  ultimately show ?thesis
    unfolding Let_def using dev_read_ok [OF assms] by simp
qed

text \<open>The theorem on the device that holds \<^verbatim>\<open>"abc"\<close>, for a read of one byte and for a
  read of no byte.\<close>

theorem dev_read_resets_data_size_witness:
  "0 \<le> data_size example_abc_written \<and> data_size example_abc_written \<le> int BUFFER_SIZE
   \<and> dev_read 1 1 example_abc_written = Some (example_abc_written\<lparr>data_size := 0\<rparr>, ''a'', 1)
   \<and> dev_read 0 0 example_abc_written = Some (example_abc_written\<lparr>data_size := 0\<rparr>, [], 0)
   \<and> dev_read 4096 4096 (example_abc_written\<lparr>data_size := 0\<rparr>)
       = Some (example_abc_written\<lparr>data_size := 0\<rparr>, [], 0)"
  using dev_read_resets_data_size [of example_abc_written 1 1 4096 4096]
    dev_read_resets_data_size [of example_abc_written 0 0 4096 4096]
  by (simp add: Let_def example_abc_written_def driver_loaded_def BUFFER_SIZE_def)

subsection \<open>Write and read when the copy faults\<close>

text \<open>A read whose copy faults returns \<^verbatim>\<open>-EFAULT\<close> and leaves the stored bytes and their
  recorded length as they were.\<close>

lemma dev_read_fault_keeps_buffer:
  assumes "dev_read writable len st = Some (s, out, rv)" and "rv < 0"
  shows "data_size s = data_size st \<and> data_buffer s = data_buffer st"
  using assms
  by (auto simp: dev_read_def pr_err_def Let_def split: if_splits prod.splits)

text \<open>
  Claim C7 does not hold for \<^verbatim>\<open>dev_write\<close>, which stores the new length in \<^verbatim>\<open>data_size\<close>
  before it copies. The device holds \<^verbatim>\<open>"abc"\<close> (length 3). A write of 5 bytes from a
  pointer at which only the two bytes \<^verbatim>\<open>"xy"\<close> are readable returns \<^verbatim>\<open>-EFAULT\<close> (-14), and
  afterwards the recorded length is 5 and the buffer starts with \<^verbatim>\<open>"xy"\<close> and three zero
  bytes: the next read returns those five bytes.
\<close>

theorem failed_write_changes_device:
  "dev_write ''abc'' 3 driver_loaded = Some (example_abc_written, 3)
   \<and> dev_write ''xy'' 5 example_abc_written =
       Some (example_abc_written
               \<lparr>data_size := 5,
                data_buffer := ''xy'' @ replicate (BUFFER_SIZE - 2) (CHR 0x00),
                klog := [''chrdev: copy_from_user failed: 3\<newline>'']\<rparr>,
             - 14)
   \<and> data_size example_abc_written = 3
   \<and> take 3 (data_buffer example_abc_written) = ''abc''
   \<and> dev_read 4096 4096
        (example_abc_written
               \<lparr>data_size := 5,
                data_buffer := ''xy'' @ replicate (BUFFER_SIZE - 2) (CHR 0x00),
                klog := [''chrdev: copy_from_user failed: 3\<newline>'']\<rparr>)
       = Some (example_abc_written
               \<lparr>data_size := 0,
                data_buffer := ''xy'' @ replicate (BUFFER_SIZE - 2) (CHR 0x00),
                klog := [''chrdev: copy_from_user failed: 3\<newline>'']\<rparr>,
               ''xy'' @ replicate 3 (CHR 0x00), 5)"
  by (simp add: dev_write_def dev_read_def int_of_size_t_def size_t_of_int_def
      copy_from_user_def copy_to_user_def pr_err_def show_int_def show_nat.simps digit_char_def
      example_abc_written_def driver_loaded_def BUFFER_SIZE_def Let_def
      replicate_add [symmetric])

section \<open>Properties of the status file\<close>

subsection \<open>The formatted text\<close>

lemma length_show_nat: "0 < k \<Longrightarrow> n < 10 ^ k \<Longrightarrow> length (show_nat n) \<le> k"
proof (induction k arbitrary: n)
  case 0
  then show ?case by simp
next
  case (Suc k)
  show ?case
  proof (cases "n < 10")
    case True
    then show ?thesis by (subst show_nat.simps) simp
  next
    case False
    with Suc.prems have k: "0 < k"
      by (cases k) simp_all
    from Suc.prems have "n div 10 < 10 ^ k"
      by (simp add: less_mult_imp_div_less mult.commute)
    with Suc.IH k have "length (show_nat (n div 10)) \<le> k" by blast
    with False show ?thesis by (subst show_nat.simps) simp
  qed
qed

lemma length_show_int: "0 < k \<Longrightarrow> \<bar>i\<bar> < 10 ^ k \<Longrightarrow> length (show_int i) \<le> Suc k"
proof -
  assume k: "0 < k" and b: "\<bar>i\<bar> < 10 ^ k"
  have "nat \<bar>i\<bar> < 10 ^ k"
    using b by (simp add: nat_less_iff)
  then have "length (show_nat (nat \<bar>i\<bar>)) \<le> k"
    using k by (intro length_show_nat)
  then show ?thesis
    by (cases "i < 0") (simp_all add: show_int_def abs_if)
qed

lemma c_div_nonneg: "0 \<le> a \<Longrightarrow> c_div a 1000 = a div 1000"
  by (cases "a = 0") (simp_all add: c_div_def)

lemma c_mod_nonneg: "0 \<le> a \<Longrightarrow> c_mod a 1000 = a mod 1000"
  by (simp add: c_mod_def c_div_nonneg minus_mult_div_eq_mod)

lemma c_div_neg: "a < 0 \<Longrightarrow> c_div a 1000 = - ((- a) div 1000)"
  by (simp add: c_div_def)

lemma c_mod_neg: "a < 0 \<Longrightarrow> c_mod a 1000 = - ((- a) mod 1000)"
  by (simp add: c_mod_def c_div_neg) (metis minus_mult_div_eq_mod minus_diff_eq diff_minus_eq_add add.commute)

lemma abs_c_div: "\<bar>c_div a 1000\<bar> = \<bar>a\<bar> div 1000"
  by (cases "0 \<le> a") (simp_all add: c_div_nonneg c_div_neg abs_if not_le)

lemma abs_c_mod: "\<bar>c_mod a 1000\<bar> < 1000"
proof (cases "0 \<le> a")
  case True
  then show ?thesis by (simp add: c_mod_nonneg)
next
  case False
  have "0 \<le> (- a) mod 1000" and "(- a) mod 1000 < 1000"
    by simp_all
  then have "\<bar>- ((- a) mod 1000)\<bar> < 1000" by linarith
  with False show ?thesis by (simp add: c_mod_neg not_le)
qed

text \<open>For a temperature that fits an \<^verbatim>\<open>int\<close> the text has at most 37 bytes, so that
  \<^verbatim>\<open>sprintf\<close> stays inside the 1024 bytes of \<^verbatim>\<open>procfs_buffer\<close>.\<close>

lemma length_temperature_text:
  assumes "- (2 ^ 31) \<le> t" and "t < 2 ^ 31"
  shows "length (temperature_text t) \<le> 37"
proof -
  have "\<bar>t\<bar> \<le> 2147483648"
    using assms by simp
  then have "\<bar>t\<bar> div 1000 \<le> 2147483648 div 1000"
    by (rule zdiv_mono1) simp
  then have "\<bar>t\<bar> div 1000 < 10 ^ 7"
    by simp
  then have "length (show_int (c_div t 1000)) \<le> 8"
    using length_show_int [of 7 "c_div t 1000"] by (simp add: abs_c_div)
  moreover have "length (show_int (c_mod t 1000)) \<le> 4"
    using length_show_int [of 3 "c_mod t 1000"] abs_c_mod [of t] by simp
  ultimately show ?thesis
    by (simp add: temperature_text_def)
qed

lemma temperature_text_45678:
  "temperature_text 45678 = ''CPU temperature = 45.678 Grad\<newline>''"
  by (simp add: temperature_text_def show_int_def show_nat.simps c_div_def c_mod_def
      digit_char_def)

lemma temperature_text_50000:
  "temperature_text 50000 = ''CPU temperature = 50.0 Grad\<newline>''"
  by (simp add: temperature_text_def show_int_def show_nat.simps c_div_def c_mod_def
      digit_char_def)

lemma replicate_nul_34: "replicate 34 c = c # replicate 33 c"
  by (simp add: numeral_eq_Suc)

subsection \<open>A query\<close>

lemma hello_read_at_start:
  assumes "length (temperature_text t) \<le> min count PROC_BUFFER_SIZE"
    and "min count PROC_BUFFER_SIZE \<le> writable"
    and "t = (case reading of Inr v \<Rightarrow> v | Inl e \<Rightarrow> temp st)"
  shows "\<exists>st'.
      hello_read reading writable count 0 st =
        Some (st',
              take (min count PROC_BUFFER_SIZE)
                (temperature_text t @ CHR 0x00
                   # drop (Suc (length (temperature_text t))) (procfs_buffer st)),
              int (min count PROC_BUFFER_SIZE), int (min count PROC_BUFFER_SIZE))
    \<and> temp st' = t
    \<and> klog st' = (case reading of Inr v \<Rightarrow> klog st
                   | Inl e \<Rightarrow> klog st @ [''Failed to get temperature\<newline>''])"
proof -
  define n where "n = min count PROC_BUFFER_SIZE"
  have "0 < length (temperature_text t)"
    by (simp add: temperature_text_def)
  moreover have "length (temperature_text t) \<le> n" and "n \<le> writable"
    using assms(1,2) by (simp_all only: n_def)
  moreover have "n \<le> PROC_BUFFER_SIZE"
    by (simp add: n_def)
  ultimately have n: "0 < n" "length (temperature_text t) \<le> n" "n \<le> PROC_BUFFER_SIZE"
      "min n writable = n" "n - writable = 0"
    by linarith+
  show ?thesis
  proof (cases reading)
    case (Inl e)
    with assms(3) n errno_val_pos [of e] show ?thesis
      by (simp add: hello_read_def thermal_zone_get_temp_def pr_err_def sprintf_def
          copy_to_user_def Let_def n_def [symmetric])
  next
    case (Inr v)
    with assms(3) n show ?thesis
      by (simp add: hello_read_def thermal_zone_get_temp_def sprintf_def
          copy_to_user_def Let_def n_def [symmetric])
  qed
qed

lemma hello_read_at_end:
  assumes "int (min count PROC_BUFFER_SIZE) \<le> pos"
  shows "\<exists>st'. hello_read reading writable count pos st = Some (st', [], 0, pos)"
  using assms
  by (cases reading)
     (auto simp: hello_read_def thermal_zone_get_temp_def pr_err_def Let_def)

lemma hello_read_attempts_sensor:
  assumes "0 \<le> pos"
  shows "\<exists>st' delivered rv pos'.
      hello_read reading writable count pos st = Some (st', delivered, rv, pos')
    \<and> temp st' = (case reading of Inr v \<Rightarrow> v | Inl e \<Rightarrow> temp st)
    \<and> klog st' = (case reading of Inr v \<Rightarrow> klog st
                   | Inl e \<Rightarrow> klog st @ [''Failed to get temperature\<newline>''])"
proof (cases reading)
  case (Inl e)
  with assms errno_val_pos [of e] show ?thesis
    by (simp add: hello_read_def thermal_zone_get_temp_def pr_err_def Let_def
        split: prod.splits)
next
  case (Inr v)
  with assms show ?thesis
    by (simp add: hello_read_def thermal_zone_get_temp_def Let_def split: prod.splits)
qed

text \<open>
  Claim C9, as amended. Every query asks the sensor at query time, whatever its offset
  and count: an answer replaces the stored temperature, a failure is logged and leaves
  the stored value, which may be the sample callback's, in use. The text is
  \<^verbatim>\<open>"CPU temperature = {int}.{frac} Grad\n"\<close>, where \<^verbatim>\<open>{int}\<close> is the stored temperature
  after the query divided by 1000 and \<^verbatim>\<open>{frac}\<close> its remainder, in C's arithmetic
  (truncated towards zero, the remainder with the sign of the temperature), both printed
  by \<^verbatim>\<open>%d\<close>. A query at offset 0 whose count is at least the length of the text, into a
  buffer that can take the bytes, returns bytes that begin with the text. How many bytes
  a query returns, and what follows the text, is not part of the statement.
\<close>

theorem hello_read_formats_temperature:
  assumes "0 \<le> pos"
  shows
    "let t = (case reading of Inr v \<Rightarrow> v | Inl e \<Rightarrow> temp st);
         text = temperature_text t
     in (\<exists>st' delivered rv pos'.
           hello_read reading writable count pos st = Some (st', delivered, rv, pos')
           \<and> temp st' = t
           \<and> klog st' = (case reading of Inr v \<Rightarrow> klog st
                          | Inl e \<Rightarrow> klog st @ [''Failed to get temperature\<newline>'']))
        \<and> (- (2 ^ 31) \<le> t \<and> t < 2 ^ 31 \<and> length text \<le> count \<and> min count 1024 \<le> writable
             \<longrightarrow> (\<exists>st' delivered rv.
                    hello_read reading writable count 0 st = Some (st', delivered, rv, rv)
                    \<and> temp st' = t
                    \<and> int (length text) \<le> rv
                    \<and> take (length text) delivered = text))
        \<and> text = ''CPU temperature = '' @ show_int (c_div t 1000) @ ''.''
                    @ show_int (c_mod t 1000) @ '' Grad\<newline>''
        \<and> (0 \<le> t \<longrightarrow> c_div t 1000 = t div 1000 \<and> c_mod t 1000 = t mod 1000)
        \<and> (t < 0 \<longrightarrow> c_div t 1000 = - ((- t) div 1000) \<and> c_mod t 1000 = - ((- t) mod 1000))"
proof -
  let ?t = "case reading of Inr v \<Rightarrow> v | Inl e \<Rightarrow> temp st"
  let ?text = "temperature_text ?t"
  have every: "\<exists>st' delivered rv pos'.
           hello_read reading writable count pos st = Some (st', delivered, rv, pos')
           \<and> temp st' = ?t
           \<and> klog st' = (case reading of Inr v \<Rightarrow> klog st
                          | Inl e \<Rightarrow> klog st @ [''Failed to get temperature\<newline>''])"
    using assms by (rule hello_read_attempts_sensor)
  have start: "\<exists>st' delivered rv.
                    hello_read reading writable count 0 st = Some (st', delivered, rv, rv)
                    \<and> temp st' = ?t
                    \<and> int (length ?text) \<le> rv
                    \<and> take (length ?text) delivered = ?text"
    if range: "- (2 ^ 31) \<le> ?t" "?t < 2 ^ 31"
      and fits: "length ?text \<le> count" "min count 1024 \<le> writable"
  proof -
    have "length ?text \<le> 37"
      using range by (rule length_temperature_text)
    with fits(1) have h1: "length ?text \<le> min count PROC_BUFFER_SIZE"
      by (simp add: PROC_BUFFER_SIZE_def)
    from fits(2) have h2: "min count PROC_BUFFER_SIZE \<le> writable"
      by (simp add: PROC_BUFFER_SIZE_def)
    from hello_read_at_start [OF h1 h2 refl]
    obtain st' where r: "hello_read reading writable count 0 st =
        Some (st',
              take (min count PROC_BUFFER_SIZE)
                (?text @ CHR 0x00 # drop (Suc (length ?text)) (procfs_buffer st)),
              int (min count PROC_BUFFER_SIZE), int (min count PROC_BUFFER_SIZE))"
      and t: "temp st' = ?t"
      by blast
    have "take (length ?text)
            (take (min count PROC_BUFFER_SIZE)
              (?text @ CHR 0x00 # drop (Suc (length ?text)) (procfs_buffer st))) = ?text"
      using h1 by (simp add: min_absorb1)
    moreover have "int (length ?text) \<le> int (min count PROC_BUFFER_SIZE)"
      using h1 by simp
    ultimately show ?thesis
      using r t by blast
  qed
  have fmt: "?text = ''CPU temperature = '' @ show_int (c_div ?t 1000) @ ''.''
                    @ show_int (c_mod ?t 1000) @ '' Grad\<newline>''"
    by (simp only: temperature_text_def)
  show ?thesis
    unfolding Let_def
    using every start fmt c_div_nonneg [of ?t] c_mod_nonneg [of ?t] c_div_neg [of ?t]
      c_mod_neg [of ?t]
    by blast
qed

text \<open>The theorem for a reading of 45678 milli-degrees and a count of 64: a query at
  offset 64, which returns no byte, has stored the reading all the same, and a query at
  offset 0 returns bytes that begin with the text.\<close>

theorem hello_read_formats_temperature_witness:
  "(0::int) \<le> 64
   \<and> (\<exists>st' delivered rv pos'.
         hello_read (Inr 45678) 64 64 64 driver_loaded = Some (st', delivered, rv, pos')
         \<and> temp st' = 45678 \<and> klog st' = [])
   \<and> length (temperature_text 45678) \<le> 64
   \<and> (\<exists>st' delivered rv.
         hello_read (Inr 45678) 64 64 0 driver_loaded = Some (st', delivered, rv, rv)
         \<and> temp st' = 45678
         \<and> take (length (temperature_text 45678)) delivered
             = ''CPU temperature = 45.678 Grad\<newline>'')"
proof -
  have p: "(0::int) \<le> 64" by simp
  have l: "length (temperature_text 45678) \<le> 64"
    by (simp add: temperature_text_45678)
  have "\<exists>st' delivered rv pos'.
         hello_read (Inr 45678) 64 64 64 driver_loaded = Some (st', delivered, rv, pos')
         \<and> temp st' = 45678 \<and> klog st' = []"
    using hello_read_formats_temperature
      [where pos = 64 and reading = "Inr 45678" and st = driver_loaded and writable = 64
         and count = 64]
    by (simp add: Let_def driver_loaded_def)
  moreover have "\<exists>st' delivered rv.
         hello_read (Inr 45678) 64 64 0 driver_loaded = Some (st', delivered, rv, rv)
         \<and> temp st' = 45678
         \<and> take (length (temperature_text 45678)) delivered
             = ''CPU temperature = 45.678 Grad\<newline>''"
    using hello_read_formats_temperature
      [where pos = 64 and reading = "Inr 45678" and st = driver_loaded and writable = 64
         and count = 64] l
    by (simp add: Let_def temperature_text_45678) blast
  ultimately show ?thesis
    using p l by blast
qed

text \<open>
  Claim C9 as it was stated fails when the sensor does not answer: the query logs the
  failure and formats the temperature the sample callback stored (50000), not one read
  at query time.
\<close>

theorem hello_read_stale_on_sensor_failure:
  "temp (thermal_callback 0 msecs_to_jiffies_hz100 (Inr 50000) driver_loaded) = 50000
   \<and> map_option (temp \<circ> fst)
        (hello_read (Inl EINVAL) 64 64 0
          (thermal_callback 0 msecs_to_jiffies_hz100 (Inr 50000) driver_loaded))
       = Some 50000
   \<and> map_option (klog \<circ> fst)
        (hello_read (Inl EINVAL) 64 64 0
          (thermal_callback 0 msecs_to_jiffies_hz100 (Inr 50000) driver_loaded))
       = Some [''Failed to get temperature\<newline>'']
   \<and> map_option (take 28 \<circ> fst \<circ> snd)
        (hello_read (Inl EINVAL) 64 64 0
          (thermal_callback 0 msecs_to_jiffies_hz100 (Inr 50000) driver_loaded))
       = Some ''CPU temperature = 50.0 Grad\<newline>''"
  by (simp add: hello_read_def thermal_zone_get_temp_def pr_err_def sprintf_def
      copy_to_user_def Let_def temperature_text_50000
      thermal_callback_unfold driver_loaded_def PROC_BUFFER_SIZE_def)

subsection \<open>The bytes a query returns\<close>

text \<open>
  The header of the file says that reading the status file prints the message.
  \<^verbatim>\<open>hello_read\<close> copies \<open>min count 1024\<close> bytes of its buffer instead: a count of 8 returns
  the first eight bytes of the text, a count of 64 returns the text and 34 zero bytes
  behind it, and a query at offset 64 returns nothing.
\<close>

lemma hello_read_returns_buffer_bytes:
  "map_option (fst \<circ> snd) (hello_read (Inr 45678) 8 8 0 driver_loaded) = Some ''CPU temp''
   \<and> map_option (fst \<circ> snd) (hello_read (Inr 45678) 64 64 0 driver_loaded)
       = Some (''CPU temperature = 45.678 Grad\<newline>'' @ replicate 34 (CHR 0x00))
   \<and> map_option (fst \<circ> snd) (hello_read (Inr 45678) 64 64 64 driver_loaded) = Some []"
  by (simp add: hello_read_def thermal_zone_get_temp_def sprintf_def
      copy_to_user_def Let_def temperature_text_45678
      driver_loaded_def PROC_BUFFER_SIZE_def replicate_nul_34)

section \<open>Properties of module initialisation\<close>

text \<open>
  Claim C8 does not hold for \<^verbatim>\<open>temp_led_init\<close>. When \<^verbatim>\<open>gpio_request_array\<close> fails (here with
  \<^verbatim>\<open>-EBUSY\<close>), the function returns -1 at once: it makes no clean-up call, and the ten
  resources acquired before are all still held. When the zone pointer is null it
  returns \<^verbatim>\<open>-EINVAL\<close> (-22), again without any clean-up call, and now the LED lines are
  held as well. When the zone lookup hands back an error pointer, which is not null,
  the function returns 0. The last conjunct shows a failure for which the function does
  run clean-up calls: a failed \<^verbatim>\<open>device_create\<close>.
\<close>

theorem init_failure_releases_nothing:
  "snd (temp_led_init (env_all_ok\<lparr>gpio_request_array_ret := - 16\<rparr>) 0 msecs_to_jiffies_hz100
          driver_loaded)
     = (- 1,
        [Chrdev_region, Cdev, Device_class, Device_node, Kobject, Sysfs_file To_temp_green,
         Sysfs_file To_temp_yellow, Sysfs_file To_temp_red, Proc_folder, Proc_file],
        [])
   \<and> still_held
        [Chrdev_region, Cdev, Device_class, Device_node, Kobject, Sysfs_file To_temp_green,
         Sysfs_file To_temp_yellow, Sysfs_file To_temp_red, Proc_folder, Proc_file] []
     = [Chrdev_region, Cdev, Device_class, Device_node, Kobject, Sysfs_file To_temp_green,
         Sysfs_file To_temp_yellow, Sysfs_file To_temp_red, Proc_folder, Proc_file]
   \<and> snd (temp_led_init (env_all_ok\<lparr>zone_by_name := Tz_null\<rparr>) 0 msecs_to_jiffies_hz100
          driver_loaded)
     = (- 22,
        [Chrdev_region, Cdev, Device_class, Device_node, Kobject, Sysfs_file To_temp_green,
         Sysfs_file To_temp_yellow, Sysfs_file To_temp_red, Proc_folder, Proc_file,
         Gpio_lines],
        [])
   \<and> still_held
        [Chrdev_region, Cdev, Device_class, Device_node, Kobject, Sysfs_file To_temp_green,
         Sysfs_file To_temp_yellow, Sysfs_file To_temp_red, Proc_folder, Proc_file,
         Gpio_lines] []
     = [Chrdev_region, Cdev, Device_class, Device_node, Kobject, Sysfs_file To_temp_green,
         Sysfs_file To_temp_yellow, Sysfs_file To_temp_red, Proc_folder, Proc_file,
         Gpio_lines]
   \<and> fst (snd (temp_led_init (env_all_ok\<lparr>zone_by_name := Tz_err_ptr ENODEV\<rparr>) 0
          msecs_to_jiffies_hz100 driver_loaded)) = 0
   \<and> snd (temp_led_init (env_all_ok\<lparr>device_create_ok := False\<rparr>) 0 msecs_to_jiffies_hz100
          driver_loaded)
     = (0, [Chrdev_region, Cdev, Device_class],
        [Unregister_chrdev_region, Class_destroy, Cdev_del])"
  by (simp add: temp_led_init_def env_all_ok_def Let_def still_held_def
      thermal_zone_get_temp_def device_err_def class_err_def cdev_err_def
      split: prod.splits)

text \<open>The same for every environment in which the steps before \<^verbatim>\<open>gpio_request_array\<close>
  succeed and that call fails.\<close>

lemma temp_led_init_gpio_failure:
  assumes "0 \<le> alloc_chrdev_region_ret env" and "0 \<le> cdev_add_ret env"
    and "class_create_ok env" and "device_create_ok env"
    and "sysfs_create_green_ret env = 0" and "sysfs_create_yellow_ret env = 0"
    and "sysfs_create_red_ret env = 0" and "proc_mkdir_ok env" and "proc_create_ok env"
    and "gpio_request_array_ret env \<noteq> 0"
  shows "snd (temp_led_init env now m2j st) =
     (- 1,
      [Chrdev_region, Cdev, Device_class, Device_node, Kobject, Sysfs_file To_temp_green,
       Sysfs_file To_temp_yellow, Sysfs_file To_temp_red, Proc_folder, Proc_file],
      [])"
  using assms by (simp add: temp_led_init_def Let_def)

end
